theory Spec2Isabelle
  imports
    Complex_Main
    "HOL-Library.Char_ord"
    "HOL-Library.List_Lexorder"
    "HOL-Library.Product_Lexorder"
    "HOL-Library.Multiset"
    "HOL-Library.Log_Nat"
begin

text \<open>
  A model of the subway congestion pipeline: the batch job of \<open>src/etl.py\<close> that turns
  the wide source CSV into the long-format table, the filter and export functions of
  \<open>src/data.py\<close>, and the statistics of \<open>src/metrics.py\<close>. A data frame is the list
  of its rows, in order; a column operation of pandas is the function it applies to
  every row; an exception is a value of type \<open>error\<close>.
\<close>

section \<open>Data model\<close>

subsection \<open>Text\<close>

text \<open>
  A Python \<open>str\<close> is modelled by its UTF-8 encoding, a \<^typ>\<open>string\<close>. Python compares
  strings code point by code point, which is the bytewise lexicographic order of the
  UTF-8 encodings, the order \<open>HOL-Library.List_Lexorder\<close> puts on \<^typ>\<open>string\<close>.
  The Korean literals of the source are spelled out byte by byte; each constant carries
  the romanised reading of the literal it stands for.
\<close>

definition simya :: string where      \<comment> \<open>late night, U+C2EC U+C57C\<close>
  "simya = [CHR 0xEC, CHR 0x8B, CHR 0xAC, CHR 0xEC, CHR 0x95, CHR 0xBC]"

definition saebyeok :: string where   \<comment> \<open>early morning, U+C0C8 U+BCBD\<close>
  "saebyeok = [CHR 0xEC, CHR 0x83, CHR 0x88, CHR 0xEB, CHR 0xB2, CHR 0xBD]"

definition chulgeun :: string where   \<comment> \<open>morning commute, U+CD9C U+ADFC\<close>
  "chulgeun = [CHR 0xEC, CHR 0xB6, CHR 0x9C, CHR 0xEA, CHR 0xB7, CHR 0xBC]"

definition ojeon :: string where      \<comment> \<open>morning, U+C624 U+C804\<close>
  "ojeon = [CHR 0xEC, CHR 0x98, CHR 0xA4, CHR 0xEC, CHR 0xA0, CHR 0x84]"

definition ohu :: string where        \<comment> \<open>afternoon, U+C624 U+D6C4\<close>
  "ohu = [CHR 0xEC, CHR 0x98, CHR 0xA4, CHR 0xED, CHR 0x9B, CHR 0x84]"

definition toegeun :: string where    \<comment> \<open>evening commute, U+D1F4 U+ADFC\<close>
  "toegeun = [CHR 0xED, CHR 0x87, CHR 0xB4, CHR 0xEA, CHR 0xB7, CHR 0xBC]"

definition jeonyeok :: string where   \<comment> \<open>evening, U+C800 U+B141\<close>
  "jeonyeok = [CHR 0xEC, CHR 0xA0, CHR 0x80, CHR 0xEB, CHR 0x85, CHR 0x81]"

definition gita :: string where       \<comment> \<open>other, U+AE30 U+D0C0\<close>
  "gita = [CHR 0xEA, CHR 0xB8, CHR 0xB0, CHR 0xED, CHR 0x83, CHR 0x80]"

definition jeonche :: string where    \<comment> \<open>the weekday sentinel "all", U+C804 U+CCB4\<close>
  "jeonche = [CHR 0xEC, CHR 0xA0, CHR 0x84, CHR 0xEC, CHR 0xB2, CHR 0xB4]"

subsection \<open>Numbers\<close>

text \<open>
  A cell of a \<open>float64\<close> column is either NaN (pandas' marker of an absent value) or a
  finite number, given by the real it denotes. Infinities are left out: the column holds
  congestion percentages.
\<close>

datatype float64 = NaN | Fin real

definition isna :: "float64 \<Rightarrow> bool" where
  "isna x = (x = NaN)"

text \<open>
  Scalar arithmetic written in the source (\<open>/\<close>, \<open>*\<close> on NumPy scalars) is IEEE 754
  binary64: the exact result, rounded to the nearest number with 53 significant bits,
  ties to even. \<open>binade x\<close> is the exponent \<open>e\<close> with \<open>2^e \<le> x < 2^(e+1)\<close> of a
  positive \<open>x\<close>; below \<open>2^-1022\<close> the spacing stays that of the last normal binade.
  Overflow to infinity (magnitudes from \<open>2^1024\<close> on) is outside the model.
\<close>

definition binade :: "real \<Rightarrow> int" where
  "binade x =
     (if 1 \<le> x then int (floorlog 2 (nat \<lfloor>x\<rfloor>)) - 1
      else - int (ceillog2 (nat \<lceil>1 / x\<rceil>)))"

definition round_half_even :: "real \<Rightarrow> int" where
  "round_half_even x =
     (let f = \<lfloor>x\<rfloor>; d = x - of_int f
      in if d < 1 / 2 then f
         else if 1 / 2 < d then f + 1
         else if even f then f else f + 1)"

definition fl :: "real \<Rightarrow> real" where
  "fl x =
     (if x = 0 then 0
      else let e = max (binade \<bar>x\<bar>) (- 1022);
               ulp = 2 powi (e - 52)
           in sgn x * of_int (round_half_even (\<bar>x\<bar> / ulp)) * ulp)"

text \<open>
  Reductions of a \<open>float64\<close> column (\<open>Series.max\<close>, \<open>min\<close>, \<open>sum\<close>, \<open>mean\<close>,
  \<open>median\<close>, \<open>std\<close>, and their group-wise forms) skip NaN. The order in which the
  library adds the values up is its own affair, so the reductions are given by their
  exact value; what they return on too few values is the library's documented
  behaviour: NaN for an empty maximum, minimum, mean and median, \<open>0.0\<close> for an empty
  sum, and NaN for a sample standard deviation (\<open>ddof = 1\<close>) of fewer than two values.
\<close>

definition dropna :: "float64 list \<Rightarrow> real list" where
  "dropna xs = concat (map (\<lambda>x. case x of NaN \<Rightarrow> [] | Fin v \<Rightarrow> [v]) xs)"

definition series_max :: "float64 list \<Rightarrow> float64" where
  "series_max xs = (case dropna xs of [] \<Rightarrow> NaN | v # vs \<Rightarrow> Fin (fold max vs v))"

definition series_min :: "float64 list \<Rightarrow> float64" where
  "series_min xs = (case dropna xs of [] \<Rightarrow> NaN | v # vs \<Rightarrow> Fin (fold min vs v))"

definition series_sum :: "float64 list \<Rightarrow> float64" where
  "series_sum xs = Fin (sum_list (dropna xs))"

definition series_mean :: "float64 list \<Rightarrow> float64" where
  "series_mean xs =
     (case dropna xs of [] \<Rightarrow> NaN | v # vs \<Rightarrow> Fin (sum_list (v # vs) / real (length (v # vs))))"

definition series_median :: "float64 list \<Rightarrow> float64" where
  "series_median xs =
     (let vs = sort (dropna xs); n = length vs
      in if n = 0 then NaN
         else if odd n then Fin (vs ! (n div 2))
         else Fin ((vs ! (n div 2 - 1) + vs ! (n div 2)) / 2))"

definition series_std :: "float64 list \<Rightarrow> float64" where
  "series_std xs =
     (let vs = dropna xs; n = length vs
      in if n \<le> 1 then NaN
         else let m = sum_list vs / real n
              in Fin (sqrt (sum_list (map (\<lambda>v. (v - m)\<^sup>2) vs) / real (n - 1))))"

subsection \<open>The long-format Dataset\<close>

text \<open>
  One row of the persisted table: the columns \<open>cols_to_keep\<close> of \<open>save_parquet\<close>,
  under the names \<open>rename_columns\<close> gives them.
\<close>

record long_record =
  weekday :: string
  line :: string
  station_id :: int
  station_name :: string
  direction :: string
  time_slot :: string
  time_order :: int
  congestion :: float64
  hour :: int
  period :: string
  is_missing :: bool

type_synonym dataset = "long_record list"

section \<open>ETL\<close>

subsection \<open>The wide source table\<close>

text \<open>
  The frame \<open>read_csv\<close> delivers: its header, and one record per source row with the five
  identifier cells and, under every other header, the cell as text (what
  \<open>astype(str)\<close> makes of it). The identifier fields carry the romanised names of the
  Korean headers \<open>id_cols\<close> lists; weekday, line, station name and direction are text,
  the station number is an integer. As \<open>read_csv\<close> leaves them, the headers are
  pairwise distinct, and none of them is \<open>congestion_raw\<close>, the name \<open>melt\<close> gives
  its value column.
\<close>

definition yoil_gubun_col :: string where     \<comment> \<open>weekday class, U+C694 U+C77C U+AD6C U+BD84\<close>
  "yoil_gubun_col = [CHR 0xEC, CHR 0x9A, CHR 0x94, CHR 0xEC, CHR 0x9D, CHR 0xBC,
                     CHR 0xEA, CHR 0xB5, CHR 0xAC, CHR 0xEB, CHR 0xB6, CHR 0x84]"

definition hoseon_col :: string where         \<comment> \<open>line, U+D638 U+C120\<close>
  "hoseon_col = [CHR 0xED, CHR 0x98, CHR 0xB8, CHR 0xEC, CHR 0x84, CHR 0xA0]"

definition yeok_beonho_col :: string where    \<comment> \<open>station number, U+C5ED U+BC88 U+D638\<close>
  "yeok_beonho_col = [CHR 0xEC, CHR 0x97, CHR 0xAD, CHR 0xEB, CHR 0xB2, CHR 0x88,
                      CHR 0xED, CHR 0x98, CHR 0xB8]"

definition chulbal_yeok_col :: string where   \<comment> \<open>departure station, U+CD9C U+BC1C U+C5ED\<close>
  "chulbal_yeok_col = [CHR 0xEC, CHR 0xB6, CHR 0x9C, CHR 0xEB, CHR 0xB0, CHR 0x9C,
                       CHR 0xEC, CHR 0x97, CHR 0xAD]"

definition sangha_gubun_col :: string where   \<comment> \<open>direction class, U+C0C1 U+D558 U+AD6C U+BD84\<close>
  "sangha_gubun_col = [CHR 0xEC, CHR 0x83, CHR 0x81, CHR 0xED, CHR 0x95, CHR 0x98,
                       CHR 0xEA, CHR 0xB5, CHR 0xAC, CHR 0xEB, CHR 0xB6, CHR 0x84]"

definition id_cols :: "string list" where
  "id_cols = [yoil_gubun_col, hoseon_col, yeok_beonho_col, chulbal_yeok_col, sangha_gubun_col]"

record id_record =
  yoil_gubun :: string
  hoseon :: string
  yeok_beonho :: int
  chulbal_yeok :: string
  sangha_gubun :: string

record raw_wide_record = id_record +
  cell :: "string \<Rightarrow> string"

record wide_table =
  columns :: "string list"
  records :: "raw_wide_record list"

text \<open>The frame after \<open>melt\<close>: the identifiers, the time header and the raw cell.\<close>

record melted_record = id_record +
  time_slot_raw :: string
  congestion_raw :: string

subsection \<open>Exceptions and the environment\<close>

datatype error =
    FileNotFoundError     \<comment> \<open>\<open>find_csv_file\<close>: no CSV under \<open>data/raw\<close>\<close>
  | EncodingValueError    \<comment> \<open>\<open>load_csv\<close>: neither encoding decodes the file\<close>
  | KeyError "string list" \<comment> \<open>\<open>melt\<close>: identifier columns missing from the frame\<close>
  | ValueError            \<comment> \<open>\<open>astype(int)\<close>: not an integer literal\<close>
  | OverflowError         \<comment> \<open>\<open>astype(int)\<close>: beyond a 64-bit integer\<close>

datatype encoding = CP949 | UTF8

text \<open>
  What the batch job takes from outside: the directory listing, the decoder (\<open>None\<close>
  is a \<open>UnicodeDecodeError\<close>), and the two pandas text functions the cleaning step
  calls, \<open>Series.str.strip\<close> and \<open>to_numeric(errors='coerce')\<close>, which yields NaN
  for text that is not a number.
\<close>

record env =
  glob_csv :: "string list"
  read_csv :: "string \<Rightarrow> encoding \<Rightarrow> wide_table option"
  str_strip :: "string \<Rightarrow> string"
  to_numeric :: "string \<Rightarrow> float64"

definition find_csv_file :: "env \<Rightarrow> error + string" where
  "find_csv_file e = (case glob_csv e of [] \<Rightarrow> Inl FileNotFoundError | f # _ \<Rightarrow> Inr f)"

definition load_csv :: "env \<Rightarrow> string \<Rightarrow> error + wide_table" where
  "load_csv e filepath =
     (case read_csv e filepath CP949 of
        Some df \<Rightarrow> Inr df
      | None \<Rightarrow>
          (case read_csv e filepath UTF8 of
             Some df \<Rightarrow> Inr df
           | None \<Rightarrow> Inl EncodingValueError))"

subsection \<open>Time-slot headers\<close>

text \<open>
  The pattern is matched on the characters of the header, so the bytes are decoded
  first: \<open>utf8_decode\<close> gives the code points of a UTF-8 string. (A byte that starts
  no well-formed sequence stands for itself; the encoding of a Python \<open>str\<close> has
  none.)
\<close>

definition utf8_length :: "char \<Rightarrow> nat" where
  "utf8_length b =
     (let n = (of_char b :: nat)
      in if 0xC0 \<le> n \<and> n < 0xE0 then 2
         else if 0xE0 \<le> n \<and> n < 0xF0 then 3
         else if 0xF0 \<le> n \<and> n < 0xF8 then 4
         else 1)"

definition utf8_code_point :: "string \<Rightarrow> nat" where
  "utf8_code_point bs =
     (case map of_char bs of
        [b0, b1] \<Rightarrow> (b0 - 0xC0) * 64 + (b1 - 0x80)
      | [b0, b1, b2] \<Rightarrow> (b0 - 0xE0) * 4096 + (b1 - 0x80) * 64 + (b2 - 0x80)
      | [b0, b1, b2, b3] \<Rightarrow>
          (b0 - 0xF0) * 262144 + (b1 - 0x80) * 4096 + (b2 - 0x80) * 64 + (b3 - 0x80)
      | b0 # _ \<Rightarrow> b0
      | [] \<Rightarrow> 0)"

function utf8_decode :: "string \<Rightarrow> nat list" where
  "utf8_decode [] = []"
| "utf8_decode (b # bs) =
     utf8_code_point (b # take (utf8_length b - 1) bs) # utf8_decode (drop (utf8_length b - 1) bs)"
  by pat_completeness auto
termination
  by (relation "measure length") auto

text \<open>
  \<open>\d\<close> in a \<open>str\<close> pattern, and \<open>int\<close> on a \<open>str\<close>, take every Unicode decimal
  digit (category Nd), not only the ASCII ones. The decimal digits come in runs of ten
  consecutive code points, zero to nine; \<open>decimal_zeros\<close> lists the zero of each run in
  the Unicode database of the interpreter (Unicode 14.0, 66 runs), and the value of a
  digit is its distance from the zero of its run.
\<close>

definition decimal_zeros :: "nat list" where
  "decimal_zeros =
     [0x30, 0x660, 0x6F0, 0x7C0, 0x966, 0x9E6, 0xA66, 0xAE6, 0xB66, 0xBE6, 0xC66, 0xCE6,
      0xD66, 0xDE6, 0xE50, 0xED0, 0xF20, 0x1040, 0x1090, 0x17E0, 0x1810, 0x1946, 0x19D0,
      0x1A80, 0x1A90, 0x1B50, 0x1BB0, 0x1C40, 0x1C50, 0xA620, 0xA8D0, 0xA900, 0xA9D0,
      0xA9F0, 0xAA50, 0xABF0, 0xFF10, 0x104A0, 0x10D30, 0x11066, 0x110F0, 0x11136,
      0x111D0, 0x112F0, 0x11450, 0x114D0, 0x11650, 0x116C0, 0x11730, 0x118E0, 0x11950,
      0x11C50, 0x11D50, 0x11DA0, 0x16A60, 0x16AC0, 0x16B50, 0x1D7CE, 0x1D7D8, 0x1D7E2,
      0x1D7EC, 0x1D7F6, 0x1E140, 0x1E2F0, 0x1E950, 0x1FBF0]"

definition decimal_value :: "nat \<Rightarrow> nat option" where
  "decimal_value cp =
     map_option (\<lambda>z. cp - z) (find (\<lambda>z. z \<le> cp \<and> cp \<le> z + 9) decimal_zeros)"

definition is_decimal :: "nat \<Rightarrow> bool" where
  "is_decimal cp = (decimal_value cp \<noteq> None)"

text \<open>
  The pattern \<open>\d+ si \d+ bun\<close>, matched at the start of the header (\<open>re.match\<close>, so
  anything may follow). A greedy \<open>\d+\<close> takes the whole run of digits, and no shorter
  run can be followed by a syllable, the two syllables being no digits. The result is
  the pair of digit groups, as code points.
\<close>

definition si :: string where     \<comment> \<open>hour, U+C2DC\<close>
  "si = [CHR 0xEC, CHR 0x8B, CHR 0x9C]"

definition bun :: string where    \<comment> \<open>minute, U+BD84\<close>
  "bun = [CHR 0xEB, CHR 0xB6, CHR 0x84]"

definition time_pattern_match :: "string \<Rightarrow> (nat list \<times> nat list) option" where
  "time_pattern_match s =
     (let cps = utf8_decode s;
          g1 = takeWhile is_decimal cps; r1 = dropWhile is_decimal cps
      in if g1 = [] \<or> take 1 r1 \<noteq> utf8_decode si then None
         else let r2 = drop 1 r1; g2 = takeWhile is_decimal r2; r3 = dropWhile is_decimal r2
              in if g2 = [] \<or> take 1 r3 \<noteq> utf8_decode bun then None else Some (g1, g2))"

definition get_time_columns :: "wide_table \<Rightarrow> string list" where
  "get_time_columns df = filter (\<lambda>col. time_pattern_match col \<noteq> None) (columns df)"

text \<open>\<open>int\<close> of a group of decimal digits, and the format \<open>02d\<close>.\<close>

definition py_int :: "nat list \<Rightarrow> nat" where
  "py_int cps =
     foldl (\<lambda>a cp. 10 * a + (case decimal_value cp of Some v \<Rightarrow> v | None \<Rightarrow> 0)) 0 cps"

fun dec_digits :: "nat \<Rightarrow> string" where
  "dec_digits n =
     (if n < 10 then [char_of (48 + n)]
      else dec_digits (n div 10) @ [char_of (48 + n mod 10)])"

declare dec_digits.simps [simp del]

definition fmt_02d :: "nat \<Rightarrow> string" where
  "fmt_02d n = (let s = dec_digits n in replicate (2 - length s) CHR ''0'' @ s)"

text \<open>The characters the format writes are the ASCII digits.\<close>

definition ascii_digit :: "char \<Rightarrow> bool" where
  "ascii_digit c = (0x30 \<le> (of_char c :: nat) \<and> (of_char c :: nat) \<le> 0x39)"

definition normalize_time_slot :: "string \<Rightarrow> string" where
  "normalize_time_slot time_str =
     (case time_pattern_match time_str of
        Some (g1, g2) \<Rightarrow> fmt_02d (py_int g1) @ '':'' @ fmt_02d (py_int g2)
      | None \<Rightarrow> time_str)"

text \<open>
  \<open>create_time_order_map\<close>: the dictionary is filled in header order, a later entry
  for the same header replacing the earlier one.
\<close>

definition create_time_order_map :: "string list \<Rightarrow> (string \<rightharpoonup> string \<times> int)" where
  "create_time_order_map time_cols =
     fold (\<lambda>(idx, time_col) time_map.
             time_map(time_col \<mapsto> (normalize_time_slot time_col, int idx)))
          (enumerate 0 time_cols) Map.empty"

subsection \<open>Reshaping\<close>

text \<open>
  \<open>unpivot_time_columns\<close>, that is \<open>melt\<close>: a \<open>KeyError\<close> names the identifier
  columns the frame lacks; otherwise the value columns are stacked one after the other,
  each contributing one row per source record, in the record order.
\<close>

definition unpivot_time_columns :: "wide_table \<Rightarrow> string list \<Rightarrow> error + melted_record list" where
  "unpivot_time_columns df time_cols =
     (let missing = filter (\<lambda>c. c \<notin> set (columns df)) (id_cols @ time_cols)
      in if missing \<noteq> [] then Inl (KeyError missing)
         else Inr (concat (map (\<lambda>time_col.
                map (\<lambda>r. \<lparr> yoil_gubun = yoil_gubun r, hoseon = hoseon r,
                            yeok_beonho = yeok_beonho r, chulbal_yeok = chulbal_yeok r,
                            sangha_gubun = sangha_gubun r,
                            time_slot_raw = time_col, congestion_raw = cell r time_col \<rparr>)
                    (records df)) time_cols)))"

subsection \<open>Derived columns\<close>

text \<open>
  Each of the following source functions adds columns to the long frame; it is modelled
  by the function that computes the new cells of one row.
\<close>

definition clean_congestion_values :: "env \<Rightarrow> string \<Rightarrow> float64" where
  "clean_congestion_values e congestion_raw_cell =
     to_numeric e (str_strip e congestion_raw_cell)"

text \<open>The nested function \<open>get_period\<close> of \<open>add_time_features\<close>, branch by branch.\<close>

definition get_period :: "int \<Rightarrow> string" where
  "get_period h =
     (if 0 \<le> h \<and> h < 1 then simya
      else if 5 \<le> h \<and> h < 7 then saebyeok
      else if 7 \<le> h \<and> h < 9 then chulgeun
      else if 9 \<le> h \<and> h < 12 then ojeon
      else if 12 \<le> h \<and> h < 18 then ohu
      else if 18 \<le> h \<and> h < 20 then toegeun
      else if 20 \<le> h \<and> h < 24 then jeonyeok
      else gita)"

text \<open>
  \<open>astype(int)\<close> on the hour field of a normalised slot, which is a run of digits:
  the integer it denotes, unless that is beyond 64 bits.
\<close>

definition astype_int :: "string \<Rightarrow> error + int" where
  "astype_int s =
     (let cps = utf8_decode s
      in if cps = [] \<or> \<not> list_all is_decimal cps then Inl ValueError
         else if py_int cps < 2 ^ 63 then Inr (int (py_int cps))
         else Inl OverflowError)"

text \<open>
  \<open>add_time_features\<close>: the cells \<open>time_slot\<close>, \<open>time_order\<close>, \<open>hour\<close> and
  \<open>period\<close> of a row, from its header through the dictionary.
\<close>

definition add_time_features ::
  "(string \<rightharpoonup> string \<times> int) \<Rightarrow> string \<Rightarrow> error + (string \<times> int \<times> int \<times> string)" where
  "add_time_features time_map raw =
     (case time_map raw of
        None \<Rightarrow> Inl (KeyError [raw])
      | Some (normalized, ord) \<Rightarrow>
          (case astype_int (takeWhile (\<lambda>c. c \<noteq> CHR '':'') normalized) of
             Inl err \<Rightarrow> Inl err
           | Inr h \<Rightarrow> Inr (normalized, ord, h, get_period h)))"

definition handle_missing_values :: "float64 \<Rightarrow> bool" where
  "handle_missing_values c = (c = Fin 0 \<or> isna c)"

text \<open>
  One row through steps 5 to 8 of \<open>main\<close>; \<open>rename_columns\<close> is the assignment of the
  identifier cells to the English field names.
\<close>

definition derive_row :: "env \<Rightarrow> (string \<rightharpoonup> string \<times> int) \<Rightarrow> melted_record \<Rightarrow> error + long_record" where
  "derive_row e time_map r =
     (let c = clean_congestion_values e (congestion_raw r)
      in case add_time_features time_map (time_slot_raw r) of
           Inl err \<Rightarrow> Inl err
         | Inr (slot, ord, h, p) \<Rightarrow>
             Inr \<lparr> weekday = yoil_gubun r, line = hoseon r, station_id = yeok_beonho r,
                   station_name = chulbal_yeok r, direction = sangha_gubun r,
                   time_slot = slot, time_order = ord, congestion = c,
                   hour = h, period = p, is_missing = handle_missing_values c \<rparr>)"

fun derive_rows :: "env \<Rightarrow> (string \<rightharpoonup> string \<times> int) \<Rightarrow> melted_record list \<Rightarrow> error + dataset" where
  "derive_rows e time_map [] = Inr []"
| "derive_rows e time_map (r # rs) =
     (case derive_row e time_map r of
        Inl err \<Rightarrow> Inl err
      | Inr x \<Rightarrow> (case derive_rows e time_map rs of Inl err \<Rightarrow> Inl err | Inr xs \<Rightarrow> Inr (x # xs)))"

subsection \<open>Persisting\<close>

definition cols_to_keep :: "string list" where
  "cols_to_keep = [''weekday'', ''line'', ''station_id'', ''station_name'', ''direction'',
                   ''time_slot'', ''time_order'', ''congestion'', ''hour'', ''period'',
                   ''is_missing'']"

text \<open>
  \<open>save_parquet\<close>: the table written to \<open>congestion_clean.parquet\<close>, sorted on several
  columns (a stable sort).
\<close>

definition save_parquet :: "dataset \<Rightarrow> dataset" where
  "save_parquet df =
     sort_key (\<lambda>r. (line r, station_id r, weekday r, direction r, time_order r)) df"

text \<open>
  \<open>main\<close>. \<open>Inl err\<close>: the job ended with the exception and wrote nothing.
  \<open>Inr t\<close>: the job ran to its end and \<open>t\<close> is the table it wrote. \<open>validate_data\<close>
  only prints.
\<close>

definition main :: "env \<Rightarrow> error + dataset" where
  "main e =
     (case find_csv_file e of
        Inl err \<Rightarrow> Inl err
      | Inr raw_data_path \<Rightarrow>
     (case load_csv e raw_data_path of
        Inl err \<Rightarrow> Inl err
      | Inr df \<Rightarrow>
     (let time_cols = get_time_columns df;
          time_map = create_time_order_map time_cols
      in case unpivot_time_columns df time_cols of
           Inl err \<Rightarrow> Inl err
         | Inr df_long \<Rightarrow>
     (case derive_rows e time_map df_long of
        Inl err \<Rightarrow> Inl err
      | Inr df_long \<Rightarrow> Inr (save_parquet df_long)))))"

section \<open>Query layer: filtering\<close>

text \<open>
  \<open>filter_data\<close>. An optional argument is an \<open>option\<close>; Python's truth test of the
  source (\<open>if lines and len(lines) > 0\<close>) is written out: \<open>None\<close>, the empty string and
  the empty list are false. A view is a list of rows in the frame's order; a boolean
  mask keeps the rows it marks, in place.
\<close>

definition filter_data ::
  "dataset \<Rightarrow> string option \<Rightarrow> string list option \<Rightarrow> string list option \<Rightarrow>
   string list option \<Rightarrow> (int \<times> int) option \<Rightarrow> dataset" where
  "filter_data df weekday_sel lines stations directions time_range =
     (let filtered = df;
          filtered =
            (case weekday_sel of
               Some w \<Rightarrow> if w \<noteq> [] \<and> w \<noteq> jeonche
                         then filter (\<lambda>r. weekday r = w) filtered else filtered
             | None \<Rightarrow> filtered);
          filtered =
            (case lines of
               Some ls \<Rightarrow> if ls \<noteq> [] \<and> length ls > 0
                          then filter (\<lambda>r. line r \<in> set ls) filtered else filtered
             | None \<Rightarrow> filtered);
          filtered =
            (case stations of
               Some ss \<Rightarrow> if ss \<noteq> [] \<and> length ss > 0
                          then filter (\<lambda>r. station_name r \<in> set ss) filtered else filtered
             | None \<Rightarrow> filtered);
          filtered =
            (case directions of
               Some ds \<Rightarrow> if ds \<noteq> [] \<and> length ds > 0
                          then filter (\<lambda>r. direction r \<in> set ds) filtered else filtered
             | None \<Rightarrow> filtered);
          filtered =
            (case time_range of
               Some (start_order, end_order) \<Rightarrow>
                 filter (\<lambda>r. time_order r \<ge> start_order \<and> time_order r \<le> end_order) filtered
             | None \<Rightarrow> filtered)
      in filtered)"

section \<open>Query layer: export\<close>

text \<open>
  \<open>prepare_download_data\<close>: the selection \<open>df[cols]\<close> is a record with exactly the
  columns of \<open>cols\<close>; sorting on several columns is stable.
\<close>

definition cols :: "string list" where
  "cols = [''weekday'', ''line'', ''station_name'', ''direction'', ''time_slot'',
           ''congestion'', ''hour'', ''period'']"

record download_record =
  d_weekday :: string
  d_line :: string
  d_station_name :: string
  d_direction :: string
  d_time_slot :: string
  d_congestion :: float64
  d_hour :: int
  d_period :: string

definition select_cols :: "long_record \<Rightarrow> download_record" where
  "select_cols r =
     \<lparr> d_weekday = weekday r, d_line = line r, d_station_name = station_name r,
       d_direction = direction r, d_time_slot = time_slot r, d_congestion = congestion r,
       d_hour = hour r, d_period = period r \<rparr>"

definition download_sort_key :: "download_record \<Rightarrow> string \<times> string \<times> string \<times> string \<times> string" where
  "download_sort_key r = (d_line r, d_station_name r, d_weekday r, d_direction r, d_time_slot r)"

definition prepare_download_data :: "dataset \<Rightarrow> download_record list" where
  "prepare_download_data df =
     (let download_df = map select_cols df
      in sort_key download_sort_key download_df)"

section \<open>Metrics\<close>

subsection \<open>Grouping and ranking\<close>

text \<open>
  \<open>groupby(key)['congestion'].agg()\<close>: one entry per distinct key, the keys in
  ascending order, each with the reduction of the congestion cells of its rows.
\<close>

definition groupby_congestion ::
  "(long_record \<Rightarrow> 'k::linorder) \<Rightarrow> (float64 list \<Rightarrow> float64) \<Rightarrow> dataset \<Rightarrow> ('k \<times> float64) list" where
  "groupby_congestion key agg df =
     map (\<lambda>k. (k, agg (map congestion (filter (\<lambda>r. key r = k) df))))
         (sort (remdups (map key df)))"

text \<open>
  \<open>Series.nlargest(n)\<close>: nothing for \<open>n \<le> 0\<close>; otherwise the first \<open>n\<close> entries of
  the series put in descending order of value, equal values in the order they had
  (\<open>keep='first'\<close>), NaN entries after all others.
\<close>

definition nlargest :: "int \<Rightarrow> ('k \<times> float64) list \<Rightarrow> ('k \<times> float64) list" where
  "nlargest n s =
     (let dropped = filter (\<lambda>(k, v). \<not> isna v) s;
          nan_index = filter (\<lambda>(k, v). isna v) s
      in if n \<le> 0 then []
         else take (nat n)
                (sort_key (\<lambda>(k, v). case v of Fin x \<Rightarrow> - x | NaN \<Rightarrow> 0) dropped @ nan_index))"

subsection \<open>Top-N ranking\<close>

text \<open>\<open>get_top_n_stations\<close>; a result row is (station_name, line, congestion_value).\<close>

definition get_top_n_stations ::
  "dataset \<Rightarrow> int \<Rightarrow> (int \<times> int) option \<Rightarrow> string \<Rightarrow> (string \<times> string \<times> float64) list" where
  "get_top_n_stations df n time_range aggregate =
     (let valid_df = filter (\<lambda>r. \<not> is_missing r) df
      in if length valid_df = 0 then []
         else
           let valid_df =
                 (case time_range of
                    Some (start_order, end_order) \<Rightarrow>
                      filter (\<lambda>r. time_order r \<ge> start_order \<and> time_order r \<le> end_order) valid_df
                  | None \<Rightarrow> valid_df);
               ranking =
                 (if aggregate = ''max'' then
                    groupby_congestion (\<lambda>r. (station_name r, line r)) series_max valid_df
                  else if aggregate = ''mean'' then
                    groupby_congestion (\<lambda>r. (station_name r, line r)) series_mean valid_df
                  else if aggregate = ''sum'' then
                    groupby_congestion (\<lambda>r. (station_name r, line r)) series_sum valid_df
                  else
                    groupby_congestion (\<lambda>r. (station_name r, line r)) series_max valid_df);
               top_n = nlargest n ranking
           in map (\<lambda>((station, ln), v). (station, ln, v)) top_n)"

subsection \<open>Average by period\<close>

text \<open>
  \<open>pd.Categorical(values, categories, ordered=True)\<close> keeps a value that is one of the
  categories and turns any other value into NaN (\<open>None\<close> here). Sorting on the
  categorical column orders the rows by the position of their category and puts the NaN
  rows last, in the order they had.
\<close>

definition period_order :: "string list" where
  "period_order = [saebyeok, chulgeun, ojeon, ohu, toegeun, jeonyeok, simya]"

definition categorical :: "string list \<Rightarrow> string \<Rightarrow> string option" where
  "categorical categories v = (if v \<in> set categories then Some v else None)"

primrec category_code :: "string list \<Rightarrow> string \<Rightarrow> nat" where
  "category_code [] v = 0"
| "category_code (c # cs) v = (if v = c then 0 else Suc (category_code cs v))"

text \<open>The sort key of a label: its code, or past every code when it is no category.\<close>

definition category_key :: "string list \<Rightarrow> string \<Rightarrow> nat" where
  "category_key cs k = (if k \<in> set cs then category_code cs k else length cs)"

definition sort_values_categorical ::
  "string list \<Rightarrow> (string option \<times> float64) list \<Rightarrow> (string option \<times> float64) list" where
  "sort_values_categorical categories rows =
     sort_key (\<lambda>(p, a). case p of Some v \<Rightarrow> category_code categories v
                                | None \<Rightarrow> length categories) rows"

text \<open>\<open>get_average_congestion_by_period\<close>; a result row is (period, avg_congestion).\<close>

definition get_average_congestion_by_period :: "dataset \<Rightarrow> (string option \<times> float64) list" where
  "get_average_congestion_by_period df =
     (let valid_df = filter (\<lambda>r. \<not> is_missing r) df
      in if length valid_df = 0 then []
         else
           let period_avg = groupby_congestion period series_mean valid_df;
               period_avg = map (\<lambda>(p, a). (categorical period_order p, a)) period_avg
           in sort_values_categorical period_order period_avg)"

subsection \<open>Summary statistics\<close>

text \<open>
  \<open>get_congestion_stats\<close>. \<open>df['is_missing'].sum() / len(df) * 100\<close> is a division and
  a multiplication of NumPy scalars; in the branch that computes it the frame has a row.
\<close>

record congestion_stats =
  count_v :: nat
  mean :: float64
  median :: float64
  std :: float64
  min_v :: float64
  max_v :: float64
  missing_pct :: float64

definition get_congestion_stats :: "dataset \<Rightarrow> congestion_stats" where
  "get_congestion_stats df =
     (let valid_df = filter (\<lambda>r. \<not> is_missing r) df
      in if length valid_df = 0
         then \<lparr> count_v = 0, mean = Fin 0, median = Fin 0, std = Fin 0,
                min_v = Fin 0, max_v = Fin 0, missing_pct = Fin 100 \<rparr>
         else
           let congestion_col = map congestion valid_df;
               pct = fl (fl (real (length (filter is_missing df)) / real (length df)) * 100)
           in \<lparr> count_v = length valid_df,
                mean = series_mean congestion_col,
                median = series_median congestion_col,
                std = series_std congestion_col,
                min_v = series_min congestion_col,
                max_v = series_max congestion_col,
                missing_pct = Fin pct \<rparr>)"

section \<open>Sample data\<close>

text \<open>Small concrete inputs on which the results below are exercised.\<close>

definition sample_row :: "string \<Rightarrow> string \<Rightarrow> real \<Rightarrow> bool \<Rightarrow> long_record" where
  "sample_row st p c m =
     \<lparr> weekday = ''weekday'', line = ''line 1'', station_id = 150, station_name = st,
       direction = ''up'', time_slot = ''05:30'', time_order = 0, congestion = Fin c,
       hour = 5, period = p, is_missing = m \<rparr>"

definition sample_view :: dataset where
  "sample_view =
     replicate 7 (sample_row ''A'' saebyeok 42 False) @ replicate 3 (sample_row ''A'' saebyeok 0 True)"

definition slot_0530 :: string where
  "slot_0530 = ''5'' @ si @ ''30'' @ bun"

definition slot_fullwidth :: string where   \<comment> \<open>the same header in full-width digits, U+FF10 to U+FF19\<close>
  "slot_fullwidth =
     [CHR 0xEF, CHR 0xBC, CHR 0x95] @ si
     @ [CHR 0xEF, CHR 0xBC, CHR 0x93, CHR 0xEF, CHR 0xBC, CHR 0x90] @ bun"

definition sample_source_row :: "string \<Rightarrow> raw_wide_record" where
  "sample_source_row c =
     \<lparr> yoil_gubun = ''weekday'', hoseon = ''line 1'', yeok_beonho = 150,
       chulbal_yeok = ''A'', sangha_gubun = ''up'', cell = (\<lambda>col. c) \<rparr>"

definition sample_table :: wide_table where
  "sample_table =
     \<lparr> columns = id_cols @ [slot_0530],
       records = [sample_source_row ''12.5'', sample_source_row ''0.0'', sample_source_row ''x''] \<rparr>"

definition fullwidth_table :: wide_table where
  "fullwidth_table =
     \<lparr> columns = id_cols @ [slot_fullwidth], records = [sample_source_row ''12.5''] \<rparr>"

definition ids_only_table :: wide_table where
  "ids_only_table = \<lparr> columns = id_cols, records = [sample_source_row ''12.5''] \<rparr>"

definition sample_to_numeric :: "string \<Rightarrow> float64" where
  "sample_to_numeric s =
     (if s = ''12.5'' then Fin 12.5 else if s = ''0.0'' then Fin 0 else NaN)"

definition sample_env :: "wide_table \<Rightarrow> env" where
  "sample_env t =
     \<lparr> glob_csv = [''congestion.csv''], read_csv = (\<lambda>path enc. Some t),
       str_strip = (\<lambda>s. s), to_numeric = sample_to_numeric \<rparr>"

definition sample_long_row :: "float64 \<Rightarrow> bool \<Rightarrow> long_record" where
  "sample_long_row c m =
     \<lparr> weekday = ''weekday'', line = ''line 1'', station_id = 150, station_name = ''A'',
       direction = ''up'', time_slot = ''05:30'', time_order = 0, congestion = c,
       hour = 5, period = saebyeok, is_missing = m \<rparr>"

section \<open>Auxiliary facts\<close>

lemmas period_labels =
  simya_def saebyeok_def chulgeun_def ojeon_def ohu_def toegeun_def jeonyeok_def gita_def

subsection \<open>Rounding\<close>

lemma round_half_even_near:
  assumes "\<bar>x - of_int n\<bar> < 1 / 2"
  shows "round_half_even x = n"
proof (cases "of_int n \<le> x")
  case True
  then have "\<lfloor>x\<rfloor> = n" using assms by (intro floor_unique) auto
  then show ?thesis using assms True by (simp add: round_half_even_def Let_def)
next
  case False
  then have "\<lfloor>x\<rfloor> = n - 1" using assms by (intro floor_unique) auto
  then show ?thesis using assms False by (auto simp add: round_half_even_def Let_def)
qed

lemma round_half_even_nearest: "\<bar>x - of_int (round_half_even x)\<bar> \<le> 1 / 2"
proof -
  have "of_int \<lfloor>x\<rfloor> \<le> x" "x < of_int \<lfloor>x\<rfloor> + 1" by linarith+
  then show ?thesis
    by (auto simp: round_half_even_def Let_def abs_le_iff)
qed

text \<open>\<open>binade\<close> is the binary exponent: a positive \<open>x\<close> lies in \<open>[2^e, 2^(e+1))\<close>.\<close>

lemma binade_ge_one:
  assumes "1 \<le> x"
  shows "2 powi binade x \<le> x \<and> x < 2 powi (binade x + 1)"
proof -
  define n where "n = nat \<lfloor>x\<rfloor>"
  have n: "0 < n" "real n \<le> x" "x < real n + 1"
    using assms by (auto simp: n_def)
  have b: "binade x = int (floorlog 2 n) - 1"
    using assms by (simp add: binade_def n_def)
  from floorlog_bounds [of n 2] n(1)
  have fb: "2 ^ (floorlog 2 n - 1) \<le> n" "n < 2 ^ floorlog 2 n" by auto
  have pos: "0 < floorlog 2 n" using n(1) by (simp add: floorlog_def)
  have p1: "(2::real) powi binade x = 2 ^ (floorlog 2 n - 1)"
    using pos by (simp add: b power_int_def nat_diff_distrib' of_nat_diff)
  have p2: "(2::real) powi (binade x + 1) = 2 ^ floorlog 2 n"
    by (simp add: b power_int_def)
  have lo: "(2::real) ^ (floorlog 2 n - 1) \<le> real n"
    using fb(1) by (metis of_nat_le_iff of_nat_numeral of_nat_power)
  have up: "real n + 1 \<le> 2 ^ floorlog 2 n"
    using fb(2) by (metis Suc_leI of_nat_Suc of_nat_le_iff of_nat_numeral of_nat_power add.commute)
  show ?thesis
    unfolding p1 p2 using lo up n(2,3) by linarith
qed

lemma binade_lt_one:
  assumes "0 < x" "x < 1"
  shows "2 powi binade x \<le> x \<and> x < 2 powi (binade x + 1)"
proof -
  define y where "y = 1 / x"
  define n where "n = nat \<lceil>y\<rceil>"
  define c where "c = ceillog2 n"
  have y: "1 < y" "0 < y" "x = 1 / y"
    using assms by (simp_all add: y_def)
  have c2: "2 \<le> \<lceil>y\<rceil>" using y(1) by (simp add: le_ceiling_iff)
  have n2: "2 \<le> n" unfolding n_def using c2 by linarith
  have rn: "real n = of_int \<lceil>y\<rceil>" unfolding n_def using c2 by simp
  have n: "y \<le> real n" "real n < y + 1"
    unfolding rn using ceiling_correct [of y] by linarith+
  have b: "binade x = - int c"
    using assms by (simp add: binade_def n_def c_def y_def)
  have le: "n \<le> 2 ^ c" unfolding c_def by (rule le_two_power_ceillog2)
  have gt: "2 ^ c < 2 * n" unfolding c_def using n2 by (intro two_power_ceillog2_gt) simp
  have cpos: "0 < c"
  proof (rule ccontr)
    assume "\<not> 0 < c"
    then have "c = 0" by simp
    with le n2 show False by simp
  qed
  then obtain d where d: "c = Suc d" by (cases c) simp_all
  have le': "real n \<le> 2 ^ c"
  proof -
    have "real n \<le> real (2 ^ c)" using le by (simp only: of_nat_le_iff)
    then show ?thesis by simp
  qed
  have "2 ^ d < n" using gt by (simp add: d)
  then have "Suc (2 ^ d) \<le> n" by simp
  then have "real (Suc (2 ^ d)) \<le> real n" by (simp only: of_nat_le_iff)
  then have gt': "(2::real) ^ d + 1 \<le> real n" by simp
  have up: "y \<le> 2 ^ c" using n(1) le' by linarith
  have lo: "2 ^ d < y" using n(2) gt' by linarith
  have p1: "(2::real) powi binade x = 1 / 2 ^ c"
    by (simp add: b power_int_minus inverse_eq_divide)
  have "binade x + 1 = - int d" by (simp add: b d)
  then have p2: "(2::real) powi (binade x + 1) = 1 / 2 ^ d"
    by (simp add: power_int_minus inverse_eq_divide)
  have "1 / 2 ^ c \<le> 1 / y"
    using up y(2) by (intro divide_left_mono) simp_all
  then have lower: "1 / 2 ^ c \<le> x" by (simp only: y(3) [symmetric])
  have "1 / y < 1 / 2 ^ d"
    using lo y(2) by (intro divide_strict_left_mono) simp_all
  then have upper: "x < 1 / 2 ^ d" by (simp only: y(3) [symmetric])
  show ?thesis
    unfolding p1 p2 using lower upper by (rule conjI)
qed

lemma binade_bounds:
  "0 < x \<Longrightarrow> 2 powi binade x \<le> x \<and> x < 2 powi (binade x + 1)"
  using binade_ge_one [of x] binade_lt_one [of x] by (cases "1 \<le> x") auto

text \<open>The binary64 number nearest to three tenths, and a hundred times it.\<close>

lemma fl_three_tenths: "fl (3 / 10) = 5404319552844595 / 18014398509481984"
proof -
  have b: "binade (3 / 10) = - 2"
    by (simp add: binade_def ceillog2_code ceillog2_aux.simps)
  have u: "(2::real) powi (- 54) = 1 / 18014398509481984"
    by (simp add: power_int_minus inverse_eq_divide)
  have "round_half_even (\<bar>3 / 10\<bar> / 2 powi (- 54)) = 5404319552844595"
    by (rule round_half_even_near) (simp add: u)
  then show ?thesis
    by (simp add: fl_def b Let_def u)
qed

lemma fl_thirty_percent: "fl (fl (3 / 10) * 100) = 30"
proof -
  have b: "binade (5404319552844595 / 18014398509481984 * 100) = 4"
    by (simp add: binade_def compute_floorlog)
  have u: "(2::real) powi (- 48) = 1 / 281474976710656"
    by (simp add: power_int_minus inverse_eq_divide)
  have "round_half_even (\<bar>5404319552844595 / 18014398509481984 * 100\<bar> / 2 powi (- 48))
          = 8444249301319680"
    by (rule round_half_even_near) (simp add: u)
  then show ?thesis
    unfolding fl_three_tenths using b by (simp add: fl_def Let_def u)
qed

subsection \<open>Sorting\<close>

lemma insort_key_map:
  "insort_key f (g x) (map g xs) = map g (insort_key (\<lambda>y. f (g y)) x xs)"
  by (induction xs) simp_all

lemma sort_key_map:
  "sort_key f (map g xs) = map g (sort_key (\<lambda>y. f (g y)) xs)"
  by (induction xs) (simp_all add: insort_key_map)

lemma filter_eq_distinct:
  "distinct xs \<Longrightarrow> k \<in> set xs \<Longrightarrow> filter (\<lambda>x. k = x) xs = [k]"
  by (induction xs) (auto simp: filter_empty_conv)

subsection \<open>Category codes\<close>

lemma category_code_less:
  "v \<in> set cs \<Longrightarrow> category_code cs v < length cs"
  by (induction cs) auto

lemma category_code_nth:
  "v \<in> set cs \<Longrightarrow> cs ! category_code cs v = v"
  by (induction cs) auto

lemma category_code_inj:
  "v \<in> set cs \<Longrightarrow> w \<in> set cs \<Longrightarrow> category_code cs v = category_code cs w \<Longrightarrow> v = w"
  by (metis category_code_nth)

lemma sorted_category_code_filter:
  "distinct cs \<Longrightarrow> sorted (map (category_code cs) (filter P cs))"
proof (induction cs)
  case Nil
  then show ?case by simp
next
  case (Cons c cs)
  have eq: "map (category_code (c # cs)) (filter P cs) = map Suc (map (category_code cs) (filter P cs))"
    using Cons.prems by (auto simp: comp_def)
  have s: "sorted (map Suc (map (category_code cs) (filter P cs)))"
    using Cons by (simp add: sorted_map del: map_map)
  have z: "category_code (c # cs) c = 0"
    by simp
  have "map (category_code (c # cs)) (filter P (c # cs))
          = (if P c then [0] else []) @ map Suc (map (category_code cs) (filter P cs))"
    using eq z by (simp del: map_map category_code.simps)
  then show ?case
    using s by (simp del: map_map category_code.simps)
qed

lemma category_key_eq_iff:
  "k \<in> set cs \<Longrightarrow> category_key cs k = category_key cs x \<longleftrightarrow> k = x"
  using category_code_less [of k cs] category_code_less [of x cs] category_code_inj [of k cs x]
  by (auto simp: category_key_def)

lemma category_key_eq_iff_out:
  "k \<notin> set cs \<Longrightarrow> category_key cs k = category_key cs x \<longleftrightarrow> x \<notin> set cs"
  using category_code_less [of x cs] by (auto simp: category_key_def)

text \<open>
  Sorting distinct labels on their category key lists the categories that occur, in the
  order of the category list, and then the labels that are no category, as they came.
\<close>

lemma sort_key_category:
  assumes "distinct cs" and "distinct ks"
  shows "sort_key (category_key cs) ks
           = filter (\<lambda>c. c \<in> set ks) cs @ filter (\<lambda>k. k \<notin> set cs) ks"
    (is "_ = ?A @ ?B")
proof (rule properties_for_sort_key)
  have d: "distinct (?A @ ?B)" using assms by auto
  have "mset ?A = mset (filter (\<lambda>k. k \<in> set cs) ks)"
    using assms by (intro iffD1 [OF set_eq_iff_mset_eq_distinct]) auto
  then show "mset (?A @ ?B) = mset ks"
    by (simp add: multiset_partition [symmetric])
  show "sorted (map (category_key cs) (?A @ ?B))"
  proof -
    have a: "map (category_key cs) ?A = map (category_code cs) ?A"
      by (simp add: category_key_def)
    have b: "map (category_key cs) ?B = replicate (length ?B) (length cs)"
      by (simp add: category_key_def map_replicate_const [symmetric] cong: map_cong)
    have "sorted (map (category_code cs) ?A)"
      using assms(1) by (rule sorted_category_code_filter)
    moreover have "\<forall>x \<in> set ?A. category_code cs x \<le> length cs"
      using category_code_less [of _ cs] by (auto intro: less_imp_le)
    ultimately have "sorted (map (category_code cs) ?A @ replicate (length ?B) (length cs))"
      by (auto simp: sorted_append)
    then show ?thesis
      by (simp only: map_append a b)
  qed
  show "filter (\<lambda>x. category_key cs k = category_key cs x) (?A @ ?B)
          = filter (\<lambda>x. category_key cs k = category_key cs x) ks" if "k \<in> set (?A @ ?B)" for k
  proof (cases "k \<in> set cs")
    case True
    with that have "k \<in> set ks" by auto
    with True show ?thesis
      using filter_eq_distinct [OF d that] filter_eq_distinct [OF assms(2)]
      by (simp add: category_key_eq_iff del: filter_append)
  next
    case False
    then show ?thesis
      by (simp add: category_key_eq_iff_out filter_empty_conv)
  qed
qed

subsection \<open>The row pipeline\<close>

lemma derive_rows_all:
  "derive_rows e tm rs = Inr xs \<Longrightarrow> x \<in> set xs \<Longrightarrow> \<exists>r \<in> set rs. derive_row e tm r = Inr x"
  by (induction rs arbitrary: xs) (auto split: sum.splits)

lemma derive_row_flag:
  "derive_row e tm r = Inr x \<Longrightarrow> is_missing x = (isna (congestion x) \<or> congestion x = Fin 0)"
  by (auto simp: derive_row_def handle_missing_values_def Let_def split: sum.splits prod.splits)

lemma derive_row_congestion:
  "derive_row e tm r = Inr x \<Longrightarrow> congestion x = to_numeric e (str_strip e (congestion_raw r))"
  by (auto simp: derive_row_def clean_congestion_values_def Let_def split: sum.splits prod.splits)

lemma dropna_single: "length (dropna [x]) \<le> 1"
  by (cases x) (simp_all add: dropna_def)

subsection \<open>Digits and headers\<close>

lemma decimal_value_ascii:
  "0x30 \<le> cp \<Longrightarrow> cp \<le> 0x39 \<Longrightarrow> decimal_value cp = Some (cp - 0x30)"
  by (simp add: decimal_value_def decimal_zeros_def)

lemma is_decimal_ascii: "0x30 \<le> cp \<Longrightarrow> cp \<le> 0x39 \<Longrightarrow> is_decimal cp"
  by (simp add: is_decimal_def decimal_value_ascii)

lemma decimal_value_fullwidth:
  "0xFF10 \<le> cp \<Longrightarrow> cp \<le> 0xFF19 \<Longrightarrow> decimal_value cp = Some (cp - 0xFF10)"
  by (simp add: decimal_value_def decimal_zeros_def)

lemma is_decimal_fullwidth: "0xFF10 \<le> cp \<Longrightarrow> cp \<le> 0xFF19 \<Longrightarrow> is_decimal cp"
  by (simp add: is_decimal_def decimal_value_fullwidth)

text \<open>No Hangul syllable (U+AC00 to U+D7A3) is a decimal digit.\<close>

lemma hangul_not_decimal: "0xAC00 \<le> cp \<Longrightarrow> cp \<le> 0xD7A3 \<Longrightarrow> \<not> is_decimal cp"
  by (simp add: is_decimal_def decimal_value_def decimal_zeros_def)

lemma decode_si: "utf8_decode si = [0xC2DC]"
  by (simp add: si_def utf8_length_def utf8_code_point_def)

lemma decode_bun: "utf8_decode bun = [0xBD84]"
  by (simp add: bun_def utf8_length_def utf8_code_point_def)

lemma decode_slot_0530: "utf8_decode slot_0530 = [0x35, 0xC2DC, 0x33, 0x30, 0xBD84]"
  by (simp add: slot_0530_def si_def bun_def utf8_length_def utf8_code_point_def)

lemma decode_slot_fullwidth:
  "utf8_decode slot_fullwidth = [0xFF15, 0xC2DC, 0xFF13, 0xFF10, 0xBD84]"
  by (simp add: slot_fullwidth_def si_def bun_def utf8_length_def utf8_code_point_def)

lemma slot_0530_match: "time_pattern_match slot_0530 = Some ([0x35], [0x33, 0x30])"
  by (simp add: time_pattern_match_def decode_slot_0530 decode_si decode_bun is_decimal_ascii
        hangul_not_decimal)

text \<open>A header written in full-width digits is a time-slot header too, of the same slot.\<close>

lemma slot_fullwidth_match:
  "time_pattern_match slot_fullwidth = Some ([0xFF15], [0xFF13, 0xFF10])"
  by (simp add: time_pattern_match_def decode_slot_fullwidth decode_si decode_bun
        is_decimal_fullwidth hangul_not_decimal)

lemma fmt_02d_5: "fmt_02d 5 = ''05''"
  by code_simp

lemma fmt_02d_30: "fmt_02d 30 = ''30''"
  by code_simp

lemma sample_normalized: "normalize_time_slot slot_0530 = ''05:30''"
  by (simp add: normalize_time_slot_def slot_0530_match py_int_def decimal_value_ascii
        fmt_02d_5 fmt_02d_30)

lemma fullwidth_normalized: "normalize_time_slot slot_fullwidth = ''05:30''"
  by (simp add: normalize_time_slot_def slot_fullwidth_match py_int_def decimal_value_fullwidth
        fmt_02d_5 fmt_02d_30)

text \<open>The identifier headers begin with a Hangul syllable, so none is a time-slot header.\<close>

lemma id_cols_no_match: "\<forall>c \<in> set id_cols. time_pattern_match c = None"
proof -
  have "utf8_decode yoil_gubun_col = [0xC694, 0xC77C, 0xAD6C, 0xBD84]"
    by (simp add: yoil_gubun_col_def utf8_length_def utf8_code_point_def)
  moreover have "utf8_decode hoseon_col = [0xD638, 0xC120]"
    by (simp add: hoseon_col_def utf8_length_def utf8_code_point_def)
  moreover have "utf8_decode yeok_beonho_col = [0xC5ED, 0xBC88, 0xD638]"
    by (simp add: yeok_beonho_col_def utf8_length_def utf8_code_point_def)
  moreover have "utf8_decode chulbal_yeok_col = [0xCD9C, 0xBC1C, 0xC5ED]"
    by (simp add: chulbal_yeok_col_def utf8_length_def utf8_code_point_def)
  moreover have "utf8_decode sangha_gubun_col = [0xC0C1, 0xD558, 0xAD6C, 0xBD84]"
    by (simp add: sangha_gubun_col_def utf8_length_def utf8_code_point_def)
  ultimately show ?thesis
    by (simp add: id_cols_def time_pattern_match_def hangul_not_decimal)
qed

lemma id_cols_distinct: "distinct id_cols \<and> ''congestion_raw'' \<notin> set id_cols"
  by (simp add: id_cols_def yoil_gubun_col_def hoseon_col_def yeok_beonho_col_def
        chulbal_yeok_col_def sangha_gubun_col_def)

subsection \<open>The hour of a normalised slot\<close>

lemma ascii_digit_char_of: "d < 10 \<Longrightarrow> ascii_digit (char_of (48 + d :: nat))"
  by (simp add: ascii_digit_def)

lemma dec_digits_ascii: "list_all ascii_digit (dec_digits n)"
proof (induction n rule: dec_digits.induct)
  case (1 n)
  show ?case
  proof (cases "n < 10")
    case True
    then show ?thesis
      by (subst dec_digits.simps) (simp add: ascii_digit_char_of)
  next
    case False
    with 1 show ?thesis
      by (subst dec_digits.simps) (simp add: ascii_digit_char_of)
  qed
qed

lemma dec_digits_nonempty: "dec_digits n \<noteq> []"
  by (subst dec_digits.simps) simp

lemma utf8_decode_ascii:
  "list_all ascii_digit s \<Longrightarrow> utf8_decode s = map of_char s"
  by (induction s) (auto simp: ascii_digit_def utf8_length_def utf8_code_point_def)

lemma py_int_snoc:
  "py_int (cps @ [cp]) = 10 * py_int cps + (case decimal_value cp of Some v \<Rightarrow> v | None \<Rightarrow> 0)"
  by (simp add: py_int_def)

lemma py_int_dec_digits: "py_int (map of_char (dec_digits n)) = n"
proof (induction n rule: dec_digits.induct)
  case (1 n)
  show ?case
  proof (cases "n < 10")
    case True
    then show ?thesis
      by (subst dec_digits.simps) (simp add: py_int_def decimal_value_ascii)
  next
    case False
    then have "py_int (map of_char (dec_digits (n div 10))) = n div 10"
      using 1 by simp
    moreover have "decimal_value (48 + n mod 10) = Some (n mod 10)"
      using decimal_value_ascii [of "48 + n mod 10"] by simp
    ultimately show ?thesis
      using False by (subst dec_digits.simps) (simp add: py_int_snoc)
  qed
qed

lemma py_int_zeros: "py_int (replicate k 0x30 @ cps) = py_int cps"
proof -
  have z: "decimal_value 48 = Some 0"
    using decimal_value_ascii [of 48] by simp
  have "foldl (\<lambda>a cp. 10 * a + (case decimal_value cp of Some v \<Rightarrow> v | None \<Rightarrow> 0)) 0
          (replicate k 0x30) = 0"
    by (induction k) (simp_all add: z)
  then show ?thesis by (simp add: py_int_def)
qed

lemma fmt_02d_ascii: "list_all ascii_digit (fmt_02d n)" "fmt_02d n \<noteq> []"
  using dec_digits_ascii [of n]
  by (auto simp: fmt_02d_def Let_def dec_digits_nonempty list_all_iff ascii_digit_def)

lemma py_int_fmt_02d: "py_int (map of_char (fmt_02d n)) = n"
proof -
  have "map of_char (fmt_02d n)
          = replicate (2 - length (dec_digits n)) (0x30 :: nat) @ map of_char (dec_digits n)"
    by (simp add: fmt_02d_def Let_def)
  then show ?thesis by (simp add: py_int_zeros py_int_dec_digits)
qed

text \<open>
  The hour field of a normalised slot is read back as the integer of the first digit
  group: \<open>astype(int)\<close> meets digits only, and fails only beyond 64 bits.
\<close>

lemma astype_int_fmt_02d:
  "astype_int (fmt_02d n) = (if n < 2 ^ 63 then Inr (int n) else Inl OverflowError)"
proof -
  have d: "utf8_decode (fmt_02d n) = map of_char (fmt_02d n)"
    by (rule utf8_decode_ascii) (rule fmt_02d_ascii)
  have "list_all is_decimal (map of_char (fmt_02d n))"
    using fmt_02d_ascii(1) [of n]
    by (auto simp: list_all_iff ascii_digit_def intro: is_decimal_ascii)
  then show ?thesis
    using fmt_02d_ascii(2) [of n] by (simp add: astype_int_def d py_int_fmt_02d)
qed

lemma hour_field:
  "takeWhile (\<lambda>c. c \<noteq> CHR '':'') (fmt_02d n @ CHR '':'' # rest) = fmt_02d n"
proof -
  have "\<forall>c \<in> set (fmt_02d n). c \<noteq> CHR '':''"
    using fmt_02d_ascii(1) [of n] by (auto simp: list_all_iff ascii_digit_def)
  then show ?thesis by (simp add: takeWhile_append2)
qed

lemma add_time_features_matched:
  assumes "time_pattern_match raw = Some (g1, g2)"
    and "time_map raw = Some (normalize_time_slot raw, ord)"
  shows "add_time_features time_map raw
           = (if py_int g1 < 2 ^ 63
              then Inr (normalize_time_slot raw, ord, int (py_int g1), get_period (int (py_int g1)))
              else Inl OverflowError)"
  using assms
  by (simp add: add_time_features_def normalize_time_slot_def hour_field astype_int_fmt_02d)

section \<open>Properties\<close>

subsection \<open>ETL\<close>

text \<open>
  C1, as amended. When no header matches the time-slot pattern, \<open>get_time_columns\<close>
  returns the empty list and nothing stops the batch. For a frame as \<open>read_csv\<close>
  delivers it (distinct headers, none of them \<open>congestion_raw\<close>): with the five
  identifier columns in the frame the job runs to its end over zero long rows and
  writes an empty table; it ends early only if identifier columns are missing, with
  the \<open>KeyError\<close> of \<open>melt\<close> that names them.
\<close>

theorem zero_time_columns_no_abort:
  assumes "find_csv_file e = Inr path" and "load_csv e path = Inr df"
    and "distinct (columns df)" and "''congestion_raw'' \<notin> set (columns df)"
    and "get_time_columns df = []"
  shows "main e = (if set id_cols \<subseteq> set (columns df) then Inr []
                   else Inl (KeyError (filter (\<lambda>c. c \<notin> set (columns df)) id_cols)))"
  using assms
  by (auto simp: main_def Let_def unpivot_time_columns_def save_parquet_def filter_empty_conv)

lemma ids_only_no_time_columns: "get_time_columns ids_only_table = []"
  using id_cols_no_match
  by (simp add: get_time_columns_def ids_only_table_def filter_empty_conv)

lemma sample_env_loaded:
  "find_csv_file (sample_env t) = Inr ''congestion.csv''
   \<and> load_csv (sample_env t) ''congestion.csv'' = Inr t"
  by (simp add: find_csv_file_def load_csv_def sample_env_def)

theorem zero_time_columns_no_abort_witness:
  "find_csv_file (sample_env ids_only_table) = Inr ''congestion.csv''
   \<and> load_csv (sample_env ids_only_table) ''congestion.csv'' = Inr ids_only_table
   \<and> distinct (columns ids_only_table)
   \<and> ''congestion_raw'' \<notin> set (columns ids_only_table)
   \<and> get_time_columns ids_only_table = []
   \<and> set id_cols \<subseteq> set (columns ids_only_table)
   \<and> main (sample_env ids_only_table) = Inr []"
  using zero_time_columns_no_abort [of "sample_env ids_only_table" "''congestion.csv''" ids_only_table]
    sample_env_loaded [of ids_only_table] ids_only_no_time_columns id_cols_distinct
  by (simp add: ids_only_table_def)

text \<open>
  The claim as stated fails: a source file whose header holds the five identifier
  columns and nothing else has zero time-slot columns, and the job does not abort.
\<close>

theorem zero_time_columns_counterexample:
  "get_time_columns ids_only_table = []
   \<and> main (sample_env ids_only_table) = Inr []"
  by (simp add: main_def find_csv_file_def load_csv_def sample_env_def Let_def
        unpivot_time_columns_def save_parquet_def ids_only_no_time_columns)
    (simp add: ids_only_table_def)

text \<open>
  C2. In every row of the table the ETL writes, the congestion is what \<open>to_numeric\<close>
  makes of a trimmed raw cell, and \<open>is_missing\<close> holds exactly when that parsed
  congestion is absent (NaN) or equals \<open>0.0\<close>.
\<close>

theorem etl_is_missing_iff:
  assumes "main e = Inr t" and "r \<in> set t"
  shows "(is_missing r \<longleftrightarrow> isna (congestion r) \<or> congestion r = Fin 0)
         \<and> (\<exists>raw. congestion r = to_numeric e (str_strip e raw))"
proof -
  from assms(1) obtain tm ml rows where d: "derive_rows e tm ml = Inr rows" and t: "t = save_parquet rows"
    by (auto simp: main_def Let_def split: sum.splits)
  from assms(2) t have "r \<in> set rows" by (simp add: save_parquet_def)
  with d obtain m where m: "derive_row e tm m = Inr r" by (blast dest: derive_rows_all)
  from m have "is_missing r \<longleftrightarrow> isna (congestion r) \<or> congestion r = Fin 0"
    by (rule derive_row_flag)
  moreover from m have "\<exists>raw. congestion r = to_numeric e (str_strip e raw)"
    by (blast dest: derive_row_congestion)
  ultimately show ?thesis by (rule conjI)
qed

lemma sample_time_columns: "get_time_columns sample_table = [slot_0530]"
  using id_cols_no_match
  by (simp add: get_time_columns_def sample_table_def slot_0530_match filter_empty_conv)

lemma sample_main:
  "main (sample_env sample_table)
     = Inr [sample_long_row (Fin 12.5) False, sample_long_row (Fin 0) True, sample_long_row NaN True]"
proof -
  have tm: "create_time_order_map [slot_0530] slot_0530 = Some (normalize_time_slot slot_0530, 0)"
    by (simp add: create_time_order_map_def)
  have feat: "add_time_features (create_time_order_map [slot_0530]) slot_0530
                = Inr (''05:30'', 0, 5, saebyeok)"
    using add_time_features_matched
            [where time_map = "create_time_order_map [slot_0530]", OF slot_0530_match tm]
    by (simp add: sample_normalized py_int_def decimal_value_ascii get_period_def)
  have ids: "filter (\<lambda>c. c \<notin> set (columns sample_table)) (id_cols @ [slot_0530]) = []"
    by (simp add: sample_table_def filter_empty_conv)
  show ?thesis
    by (simp add: main_def sample_env_loaded sample_time_columns unpivot_time_columns_def
          Let_def ids del: filter_append)
       (simp add: sample_table_def derive_row_def feat clean_congestion_values_def
          handle_missing_values_def isna_def sample_env_def sample_to_numeric_def
          sample_source_row_def sample_long_row_def save_parquet_def)
qed

text \<open>A header in full-width digits is reshaped like its ASCII spelling.\<close>

lemma fullwidth_main:
  "main (sample_env fullwidth_table) = Inr [sample_long_row (Fin 12.5) False]"
proof -
  have cols: "get_time_columns fullwidth_table = [slot_fullwidth]"
    using id_cols_no_match
    by (simp add: get_time_columns_def fullwidth_table_def slot_fullwidth_match filter_empty_conv)
  have tm: "create_time_order_map [slot_fullwidth] slot_fullwidth
              = Some (normalize_time_slot slot_fullwidth, 0)"
    by (simp add: create_time_order_map_def)
  have feat: "add_time_features (create_time_order_map [slot_fullwidth]) slot_fullwidth
                = Inr (''05:30'', 0, 5, saebyeok)"
    using add_time_features_matched
            [where time_map = "create_time_order_map [slot_fullwidth]",
             OF slot_fullwidth_match tm]
    by (simp add: fullwidth_normalized py_int_def decimal_value_fullwidth get_period_def)
  have ids: "filter (\<lambda>c. c \<notin> set (columns fullwidth_table)) (id_cols @ [slot_fullwidth]) = []"
    by (simp add: fullwidth_table_def filter_empty_conv)
  show ?thesis
    by (simp add: main_def sample_env_loaded cols unpivot_time_columns_def Let_def ids
          del: filter_append)
       (simp add: fullwidth_table_def derive_row_def feat clean_congestion_values_def
          handle_missing_values_def isna_def sample_env_def sample_to_numeric_def
          sample_source_row_def sample_long_row_def save_parquet_def)
qed

theorem etl_is_missing_iff_witness:
  "main (sample_env sample_table)
     = Inr [sample_long_row (Fin 12.5) False, sample_long_row (Fin 0) True, sample_long_row NaN True]
   \<and> \<not> is_missing (sample_long_row (Fin 12.5) False)
   \<and> is_missing (sample_long_row (Fin 0) True)
   \<and> is_missing (sample_long_row NaN True)"
  using etl_is_missing_iff [OF sample_main, of "sample_long_row (Fin 12.5) False"]
    etl_is_missing_iff [OF sample_main, of "sample_long_row (Fin 0) True"]
    etl_is_missing_iff [OF sample_main, of "sample_long_row NaN True"]
    sample_main
  by (simp add: isna_def sample_long_row_def)

text \<open>
  C3. \<open>period\<close> is a total function of \<open>hour\<close> that follows the bucket table: hour 0
  is late night, hours 1 to 4 are the other bucket (and that bucket is not the early
  morning one), [5,7) early morning, [7,9) morning commute, [9,12) morning, [12,18)
  afternoon, [18,20) evening commute, [20,24) evening. Outside [0,24) the function is
  still defined and gives the other bucket.
\<close>

theorem get_period_bucket_table:
  "get_period h =
     (if h = 0 then simya
      else if h \<in> {1, 2, 3, 4} then gita
      else if h \<in> {5 ..< 7} then saebyeok
      else if h \<in> {7 ..< 9} then chulgeun
      else if h \<in> {9 ..< 12} then ojeon
      else if h \<in> {12 ..< 18} then ohu
      else if h \<in> {18 ..< 20} then toegeun
      else if h \<in> {20 ..< 24} then jeonyeok
      else gita)
   \<and> gita \<noteq> saebyeok"
  by (auto simp: get_period_def gita_def saebyeok_def)

text \<open>
  C5. For a wide table that has the identifier columns, with R records and T detected
  time-slot columns, the reshaping returns a long frame of exactly R times T rows:
  none is dropped, none is merged.
\<close>

theorem unpivot_row_count:
  assumes "set id_cols \<subseteq> set (columns df)"
  shows "\<exists>df_long. unpivot_time_columns df (get_time_columns df) = Inr df_long
           \<and> length df_long = length (records df) * length (get_time_columns df)"
proof -
  have "filter (\<lambda>c. c \<notin> set (columns df)) (id_cols @ get_time_columns df) = []"
    using assms by (auto simp: get_time_columns_def filter_empty_conv)
  then show ?thesis
    by (simp add: unpivot_time_columns_def Let_def length_concat comp_def sum_list_triv del: filter_append)
qed

theorem unpivot_row_count_witness:
  "set id_cols \<subseteq> set (columns sample_table)
   \<and> (\<exists>df_long. unpivot_time_columns sample_table (get_time_columns sample_table) = Inr df_long
         \<and> length df_long = 3 * 1)"
proof -
  have ids: "set id_cols \<subseteq> set (columns sample_table)"
    by (auto simp: sample_table_def)
  have size: "length (records sample_table) * length (get_time_columns sample_table) = 3 * 1"
    by (simp add: sample_time_columns) (simp add: sample_table_def)
  from unpivot_row_count [OF ids]
  have "\<exists>df_long. unpivot_time_columns sample_table (get_time_columns sample_table) = Inr df_long
          \<and> length df_long = 3 * 1"
    unfolding size .
  with ids show ?thesis by (rule conjI)
qed

subsection \<open>Filtering and export\<close>

text \<open>
  C4. For every dataset and every choice of the other filter arguments, an empty
  \<open>lines\<close> list gives the same view as \<open>lines\<close> left out, and likewise for
  \<open>directions\<close>. Empty means no restriction: with both lists empty the view holds
  every row that passes the weekday, station and time-range filters, whatever its line
  and direction, and with those filters absent it is the whole dataset.
\<close>

theorem filter_data_empty_is_omitted:
  "filter_data df w (Some []) stations directions time_range
     = filter_data df w None stations directions time_range
   \<and> filter_data df w lines stations (Some []) time_range
     = filter_data df w lines stations None time_range
   \<and> filter_data df w (Some []) stations (Some []) time_range
     = filter (\<lambda>r. (case w of None \<Rightarrow> True
                       | Some x \<Rightarrow> x = [] \<or> x = jeonche \<or> weekday r = x)
                 \<and> (case stations of None \<Rightarrow> True
                       | Some ss \<Rightarrow> ss = [] \<or> station_name r \<in> set ss)
                 \<and> (case time_range of None \<Rightarrow> True
                       | Some (lo, hi) \<Rightarrow> lo \<le> time_order r \<and> time_order r \<le> hi)) df
   \<and> filter_data df None (Some []) None (Some []) None = df"
proof (intro conjI)
  show "filter_data df w (Some []) stations (Some []) time_range
     = filter (\<lambda>r. (case w of None \<Rightarrow> True
                       | Some x \<Rightarrow> x = [] \<or> x = jeonche \<or> weekday r = x)
                 \<and> (case stations of None \<Rightarrow> True
                       | Some ss \<Rightarrow> ss = [] \<or> station_name r \<in> set ss)
                 \<and> (case time_range of None \<Rightarrow> True
                       | Some (lo, hi) \<Rightarrow> lo \<le> time_order r \<and> time_order r \<le> hi)) df"
    by (cases w; cases stations; cases time_range)
       (auto simp: filter_data_def conj_commute intro!: filter_cong)
qed (simp_all add: filter_data_def)

theorem filter_data_empty_is_omitted_witness:
  "sample_view \<noteq> []
   \<and> filter_data sample_view None (Some []) None (Some []) None = sample_view
   \<and> filter_data sample_view None (Some []) None None None = filter_data sample_view None None None None None"
proof -
  have "sample_view \<noteq> []"
    by (simp add: sample_view_def)
  with filter_data_empty_is_omitted
         [where df = sample_view and w = None and stations = None and directions = None
            and time_range = None and lines = None]
  show ?thesis by simp
qed

text \<open>
  C8, as amended. For every view the export is the view's rows, each cut down to the
  columns of \<open>cols\<close>, sorted by (line, station_name, weekday, direction, time_slot).
  The columns kept are weekday, line, station_name, direction, time_slot, congestion,
  hour and period; the columns dropped are is_missing, station_id and time_order, and
  the export does not depend on them.
\<close>

theorem download_projection_sorted:
  "sorted (map download_sort_key (prepare_download_data df))
   \<and> mset (prepare_download_data df) = mset (map select_cols df)
   \<and> set cols = set cols_to_keep - {''is_missing'', ''station_id'', ''time_order''}
   \<and> select_cols (r\<lparr> is_missing := b, station_id := i, time_order := t \<rparr>) = select_cols r
   \<and> (d_weekday (select_cols r), d_line (select_cols r), d_station_name (select_cols r),
      d_direction (select_cols r), d_time_slot (select_cols r), d_congestion (select_cols r),
      d_hour (select_cols r), d_period (select_cols r))
     = (weekday r, line r, station_name r, direction r, time_slot r, congestion r,
        hour r, period r)"
  by (auto simp: prepare_download_data_def Let_def select_cols_def cols_def cols_to_keep_def)

text \<open>
  The claim as stated fails: \<open>time_order\<close> is a column of the Dataset other than
  is_missing and station_id, and it is not exported; two views that differ in it alone
  export the same table.
\<close>

theorem download_drops_time_order_counterexample:
  "''time_order'' \<in> set cols_to_keep - {''is_missing'', ''station_id''}
   \<and> ''time_order'' \<notin> set cols
   \<and> time_order (sample_long_row (Fin 42) False)
       \<noteq> time_order ((sample_long_row (Fin 42) False)\<lparr> time_order := 7 \<rparr>)
   \<and> prepare_download_data [sample_long_row (Fin 42) False]
       = prepare_download_data [(sample_long_row (Fin 42) False)\<lparr> time_order := 7 \<rparr>]"
  by (simp add: cols_def cols_to_keep_def prepare_download_data_def select_cols_def
        sample_long_row_def)

subsection \<open>Metrics\<close>

text \<open>
  C6. On a view with a non-missing row, \<open>missing_pct\<close> is the number of missing rows
  divided by the number of rows of the whole view, times 100 (both operations in
  binary64); on a view without a non-missing row all statistics are zero and
  \<open>missing_pct\<close> is \<open>100.0\<close>; on a view of 10 rows of which 3 are missing,
  \<open>missing_pct\<close> is exactly \<open>30.0\<close>.
\<close>

theorem stats_missing_pct:
  "(filter (\<lambda>r. \<not> is_missing r) df \<noteq> [] \<longrightarrow>
      missing_pct (get_congestion_stats df)
        = Fin (fl (fl (real (length (filter is_missing df)) / real (length df)) * 100)))
   \<and> (filter (\<lambda>r. \<not> is_missing r) df = [] \<longrightarrow>
      get_congestion_stats df
        = \<lparr> count_v = 0, mean = Fin 0, median = Fin 0, std = Fin 0,
            min_v = Fin 0, max_v = Fin 0, missing_pct = Fin 100 \<rparr>)
   \<and> (length df = 10 \<and> length (filter is_missing df) = 3 \<longrightarrow>
      missing_pct (get_congestion_stats df) = Fin 30)"
proof (intro conjI impI)
  assume "length df = 10 \<and> length (filter is_missing df) = 3"
  then have l: "length df = 10" and m: "length (filter is_missing df) = 3" by auto
  have "length (filter is_missing df) + length (filter (\<lambda>r. \<not> is_missing r) df) = length df"
    by (rule sum_length_filter_compl)
  with l m have "filter (\<lambda>r. \<not> is_missing r) df \<noteq> []" by auto
  then show "missing_pct (get_congestion_stats df) = Fin 30"
    using l m by (simp add: get_congestion_stats_def Let_def fl_thirty_percent)
qed (simp_all add: get_congestion_stats_def Let_def)

lemma sample_view_counts:
  "length sample_view = 10 \<and> length (filter is_missing sample_view) = 3
   \<and> filter (\<lambda>r. \<not> is_missing r) sample_view \<noteq> []"
  by (simp add: sample_view_def sample_row_def)

theorem stats_missing_pct_witness:
  "length sample_view = 10 \<and> length (filter is_missing sample_view) = 3
   \<and> filter (\<lambda>r. \<not> is_missing r) sample_view \<noteq> []
   \<and> missing_pct (get_congestion_stats sample_view) = Fin (fl (fl (3 / 10) * 100))
   \<and> missing_pct (get_congestion_stats sample_view) = Fin 30
   \<and> filter (\<lambda>r. \<not> is_missing r) [sample_long_row NaN True] = []
   \<and> get_congestion_stats [sample_long_row NaN True]
       = \<lparr> count_v = 0, mean = Fin 0, median = Fin 0, std = Fin 0,
           min_v = Fin 0, max_v = Fin 0, missing_pct = Fin 100 \<rparr>"
  using stats_missing_pct [of sample_view] stats_missing_pct [of "[sample_long_row NaN True]"]
    sample_view_counts
  by (simp add: sample_long_row_def fl_thirty_percent)

text \<open>
  C7, as amended. \<open>get_average_congestion_by_period\<close> leaves the missing rows out,
  groups the others by period and takes the mean congestion of each group. The result
  lists the periods of the canonical sequence that occur, in that sequence, each under
  its label. A group whose period is not in the sequence (the other bucket of hours 1
  to 4) is not left out: it follows as a further row that carries the group's mean
  under an absent label.
\<close>

theorem period_average_layout:
  "get_average_congestion_by_period df =
     (let valid_df = filter (\<lambda>r. \<not> is_missing r) df;
          avg = (\<lambda>p. series_mean (map congestion (filter (\<lambda>r. period r = p) valid_df)));
          present = sort (remdups (map period valid_df))
      in map (\<lambda>p. (Some p, avg p)) (filter (\<lambda>p. p \<in> set present) period_order)
         @ map (\<lambda>p. (None, avg p)) (filter (\<lambda>p. p \<notin> set period_order) present))
   \<and> period_order = [saebyeok, chulgeun, ojeon, ohu, toegeun, jeonyeok, simya]
   \<and> gita \<notin> set period_order"
proof -
  define valid_df where "valid_df = filter (\<lambda>r. \<not> is_missing r) df"
  define avg where "avg = (\<lambda>p. series_mean (map congestion (filter (\<lambda>r. period r = p) valid_df)))"
  define present where "present = sort (remdups (map period valid_df))"
  have po: "distinct period_order"
    by (simp add: period_order_def period_labels)
  have key: "(\<lambda>y. case categorical period_order y of
                   None \<Rightarrow> length period_order
                 | Some v \<Rightarrow> category_code period_order v) = category_key period_order"
    by (auto simp: fun_eq_iff categorical_def category_key_def)
  have "sort_values_categorical period_order
          (map (\<lambda>(p, a). (categorical period_order p, a)) (map (\<lambda>k. (k, avg k)) present))
        = map (\<lambda>k. (categorical period_order k, avg k)) (sort_key (category_key period_order) present)"
    by (simp add: sort_values_categorical_def sort_key_map comp_def key)
  also have "sort_key (category_key period_order) present
        = filter (\<lambda>p. p \<in> set present) period_order @ filter (\<lambda>p. p \<notin> set period_order) present"
    by (rule sort_key_category [OF po]) (simp add: present_def)
  finally have sorted_rows: "sort_values_categorical period_order
          (map (\<lambda>(p, a). (categorical period_order p, a)) (map (\<lambda>k. (k, avg k)) present))
        = map (\<lambda>p. (Some p, avg p)) (filter (\<lambda>p. p \<in> set present) period_order)
          @ map (\<lambda>p. (None, avg p)) (filter (\<lambda>p. p \<notin> set period_order) present)"
    by (simp add: categorical_def)
  have layout: "get_average_congestion_by_period df =
     (let valid_df = filter (\<lambda>r. \<not> is_missing r) df;
          avg = (\<lambda>p. series_mean (map congestion (filter (\<lambda>r. period r = p) valid_df)));
          present = sort (remdups (map period valid_df))
      in map (\<lambda>p. (Some p, avg p)) (filter (\<lambda>p. p \<in> set present) period_order)
         @ map (\<lambda>p. (None, avg p)) (filter (\<lambda>p. p \<notin> set period_order) present))"
  proof (cases "valid_df = []")
    case True
    then show ?thesis
      by (simp add: get_average_congestion_by_period_def valid_df_def [symmetric])
  next
    case False
    then have "get_average_congestion_by_period df
        = sort_values_categorical period_order
            (map (\<lambda>(p, a). (categorical period_order p, a)) (map (\<lambda>k. (k, avg k)) present))"
      by (simp add: get_average_congestion_by_period_def groupby_congestion_def Let_def
            valid_df_def avg_def present_def)
    also note sorted_rows
    finally show ?thesis
      by (simp add: Let_def valid_df_def avg_def present_def)
  qed
  have "gita \<notin> set period_order"
    by (simp add: period_order_def period_labels)
  with layout show ?thesis
    by (simp add: period_order_def)
qed

text \<open>
  The claim as stated fails: on a view of one valid row of the other bucket the result
  is not empty; it has a row for that bucket, with the mean and without the label.
\<close>

theorem period_average_other_counterexample:
  "get_period 3 = gita
   \<and> get_average_congestion_by_period [sample_row ''A'' gita 50 False] = [(None, Fin 50)]"
  by (simp add: get_period_def get_average_congestion_by_period_def groupby_congestion_def
        sample_row_def series_mean_def dropna_def sort_values_categorical_def categorical_def
        period_order_def period_labels)

text \<open>
  C9. For every view, every \<open>n\<close> and every time range, an aggregate string other than
  \<open>max\<close>, \<open>mean\<close> and \<open>sum\<close> gives the ranking that \<open>max\<close> gives; no error is
  raised.
\<close>

theorem top_n_unknown_aggregate_is_max:
  assumes "aggregate \<notin> {''max'', ''mean'', ''sum''}"
  shows "get_top_n_stations df n time_range aggregate = get_top_n_stations df n time_range ''max''"
  using assms by (simp add: get_top_n_stations_def Let_def)

theorem top_n_unknown_aggregate_is_max_witness:
  "''median'' \<notin> {''max'', ''mean'', ''sum''}
   \<and> get_top_n_stations sample_view 3 (Some (0, 10)) ''median''
       = get_top_n_stations sample_view 3 (Some (0, 10)) ''max''"
  using top_n_unknown_aggregate_is_max [of "''median''" sample_view 3 "Some (0, 10)"]
  by simp

text \<open>
  C10. On a view with exactly one non-missing row the \<open>std\<close> field of the summary is
  NaN, not \<open>0.0\<close>: the sample standard deviation divides by the count less one.
\<close>

theorem stats_std_single_valid_row:
  assumes "length (filter (\<lambda>r. \<not> is_missing r) df) = 1"
  shows "std (get_congestion_stats df) = NaN \<and> std (get_congestion_stats df) \<noteq> Fin 0"
proof -
  from assms obtain r where "filter (\<lambda>r. \<not> is_missing r) df = [r]"
    by (auto simp: length_Suc_conv)
  then show ?thesis
    using dropna_single [of "congestion r"]
    by (simp add: get_congestion_stats_def series_std_def Let_def)
qed

theorem stats_std_single_valid_row_witness:
  "length (filter (\<lambda>r. \<not> is_missing r)
             [sample_long_row (Fin 42) False, sample_long_row NaN True]) = 1
   \<and> std (get_congestion_stats [sample_long_row (Fin 42) False, sample_long_row NaN True]) = NaN"
  using stats_std_single_valid_row [of "[sample_long_row (Fin 42) False, sample_long_row NaN True]"]
  by (simp add: sample_long_row_def)

end
